theory Spec2Isabelle
  imports Main
begin

section \<open>Tensors, modules and ordered dictionaries\<close>

text \<open>
  A tensor is known to this code through four observations only: the storage it reads
  (shared between a parameter and every tensor detached from it), \<open>numel()\<close>,
  \<open>element_size()\<close> and the \<open>requires_grad\<close> flag. A parameter is a tensor.
\<close>

record tensor =
  storage :: nat
  numel :: nat
  element_size :: nat
  requires_grad :: bool

text \<open>\<open>Tensor.detach()\<close>: a new tensor on the same storage that never requires grad.\<close>

definition detach :: "tensor \<Rightarrow> tensor" where
  "detach t = t\<lparr>requires_grad := False\<rparr>"

text \<open>
  An \<open>OrderedDict\<close> keyed by parameter names is an association list in insertion
  order. \<open>d[k] = v\<close> overwrites the value of a key that is present, in place, and
  appends a key that is new.
\<close>

type_synonym 'v ordered_dict = "(string \<times> 'v) list"

fun setitem :: "'v ordered_dict \<Rightarrow> string \<Rightarrow> 'v \<Rightarrow> 'v ordered_dict" where
  "setitem [] k v = [(k, v)]"
| "setitem ((k', v') # d) k v =
     (if k' = k then (k, v) # d else (k', v') # setitem d k v)"

text \<open>
  Of an \<open>nn.Module\<close> the strategy uses \<open>named_parameters()\<close> (the pairs in iteration
  order), \<open>state_dict()\<close> (parameters and persistent buffers, as the framework orders
  them) and whether the object is an instance of \<open>PreTrainedModel\<close>.
\<close>

record module =
  named_parameters :: "tensor ordered_dict"
  state_dict :: "tensor ordered_dict"
  is_pretrained :: bool

section \<open>The gradient filter\<close>

text \<open>
  The loop of \<open>get_grad_required_state_dict\<close>, with the dictionary built so far
  (\<open>state_dict\<close> in the source) as the accumulator \<open>sd\<close>.
\<close>

fun grad_required_loop :: "tensor ordered_dict \<Rightarrow> tensor ordered_dict \<Rightarrow> tensor ordered_dict" where
  "grad_required_loop sd [] = sd"
| "grad_required_loop sd ((name, parameter) # rest) =
     grad_required_loop
       (if requires_grad parameter then setitem sd name (detach parameter) else sd) rest"

definition get_grad_required_state_dict :: "module \<Rightarrow> tensor ordered_dict" where
  "get_grad_required_state_dict model = grad_required_loop [] (named_parameters model)"

section \<open>Splitting a state dict into shards\<close>

text \<open>The bytes of one tensor, \<open>param.numel() * param.element_size()\<close>.\<close>

definition nbytes :: "tensor \<Rightarrow> nat" where
  "nbytes param = numel param * element_size param"

definition chunk_bytes :: "tensor ordered_dict \<Rightarrow> nat" where
  "chunk_bytes chunk = sum_list (map (\<lambda>(name, param). nbytes param) chunk)"

text \<open>
  The loop over \<open>state_dict.items()\<close> and the statement after it. The result is the
  list of the dictionaries the generator yields, in order.
\<close>

fun shard_loop ::
  "int \<Rightarrow> nat \<Rightarrow> tensor ordered_dict \<Rightarrow> tensor ordered_dict \<Rightarrow> tensor ordered_dict list" where
  "shard_loop shard_size accumulate_size state_dict_shard [] =
     (if accumulate_size > 0 then [state_dict_shard] else [])"
| "shard_loop shard_size accumulate_size state_dict_shard ((name, param) # rest) =
     (let state_dict_shard = setitem state_dict_shard name param;
          accumulate_size = accumulate_size + nbytes param
      in if int accumulate_size \<ge> shard_size
         then state_dict_shard # shard_loop shard_size 0 [] rest
         else shard_loop shard_size accumulate_size state_dict_shard rest)"

text \<open>
  The keyword arguments \<open>**config\<close>, of which the method reads the keys
  \<open>'requires_grad_only'\<close> and \<open>'shard_size'\<close>: a field is \<open>None\<close> when its key is absent.
\<close>

record config =
  config_requires_grad_only :: "bool option"
  config_shard_size :: "int option"

text \<open>
  \<open>unwrap_model\<close> is inherited from the base class \<open>Strategy\<close>, which is not part of
  this file: it is a parameter here.
\<close>

definition get_model_state_dict_shard ::
  "(module \<Rightarrow> module) \<Rightarrow> module \<Rightarrow> config \<Rightarrow> tensor ordered_dict list" where
  "get_model_state_dict_shard unwrap_model model cfg =
     (let model = unwrap_model model;
          sd = (if config_requires_grad_only cfg = Some True
                then get_grad_required_state_dict model
                else state_dict model)
      in case config_shard_size cfg of
           Some shard_size \<Rightarrow> shard_loop shard_size 0 [] sd
         | None \<Rightarrow> [sd])"

section \<open>Exceptions and the builtins the strategy calls\<close>

text \<open>
  Exceptions are values, told apart as far as the two \<open>except\<close> clauses of
  \<open>_try_init_dist\<close> tell them apart: \<open>KeyError\<close> (with its key), the other classes this
  code raises itself, any other class below \<open>Exception\<close>, and the classes that are below
  \<open>BaseException\<close> only (\<open>KeyboardInterrupt\<close>, \<open>SystemExit\<close>, \<open>GeneratorExit\<close>), which
  \<open>except Exception\<close> does not catch. The last two carry the class name. A
  \<open>ValueError\<close> that \<open>int(s)\<close> raises carries \<open>s\<close>, the string that was refused: the
  text of its message, which nothing here reads, is not modelled.
\<close>

datatype py_exception =
    KeyError string
  | ValueError string
  | RuntimeError string
  | AssertionError
  | OtherException string
  | BaseOnly string


fun is_Exception :: "py_exception \<Rightarrow> bool" where
  "is_Exception (BaseOnly n) = False"
| "is_Exception e = True"

text \<open>
  \<open>repr\<close> of a string, for strings of ASCII characters: the quote is \<open>"\<close> when the
  string has a \<open>'\<close> and no \<open>"\<close>, and \<open>'\<close> otherwise; the quote and the backslash are
  escaped, tab, newline and carriage return have their letters, and any other control
  character is written \<open>\xhh\<close>.
\<close>

definition hex_digit :: "nat \<Rightarrow> char" where
  "hex_digit n = ''0123456789abcdef'' ! n"

definition repr_char :: "char \<Rightarrow> char \<Rightarrow> string" where
  "repr_char quote c =
     (if c = quote \<or> c = CHR 0x5C then [CHR 0x5C, c]
      else if c = CHR 0x09 then [CHR 0x5C, CHR ''t'']
      else if c = CHR 0x0A then [CHR 0x5C, CHR ''n'']
      else if c = CHR 0x0D then [CHR 0x5C, CHR ''r'']
      else if (of_char c :: nat) < 32 \<or> (of_char c :: nat) \<ge> 127
        then [CHR 0x5C, CHR ''x'', hex_digit ((of_char c :: nat) div 16),
              hex_digit ((of_char c :: nat) mod 16)]
      else [c])"

definition py_repr :: "string \<Rightarrow> string" where
  "py_repr s =
     (let quote = (if CHR 0x27 \<in> set s \<and> CHR 0x22 \<notin> set s then CHR 0x22 else CHR 0x27)
      in [quote] @ concat (map (repr_char quote) s) @ [quote])"

text \<open>
  \<open>int(s)\<close> for a string of ASCII characters, base 10: whitespace around the literal
  (tab, line feed, vertical tab, form feed, carriage return and space) is dropped, one
  sign may lead, and the digits may be grouped by single underscores. The result is
  \<open>None\<close> where Python raises \<open>ValueError\<close>.
\<close>

definition is_space :: "char \<Rightarrow> bool" where
  "is_space c \<longleftrightarrow> c \<in> set [CHR 0x09, CHR 0x0A, CHR 0x0B, CHR 0x0C, CHR 0x0D, CHR 0x20]"

definition strip :: "string \<Rightarrow> string" where
  "strip s = rev (dropWhile is_space (rev (dropWhile is_space s)))"

definition digit_value :: "char \<Rightarrow> nat option" where
  "digit_value =
     map_of [(CHR ''0'', 0), (CHR ''1'', 1), (CHR ''2'', 2), (CHR ''3'', 3), (CHR ''4'', 4),
             (CHR ''5'', 5), (CHR ''6'', 6), (CHR ''7'', 7), (CHR ''8'', 8), (CHR ''9'', 9)]"

text \<open>
  The digits after the sign: \<open>prev_digit\<close> says that the character before was a digit,
  which an underscore and the end of the literal both need.
\<close>

fun digits :: "nat \<Rightarrow> bool \<Rightarrow> string \<Rightarrow> nat option" where
  "digits acc prev_digit [] = (if prev_digit then Some acc else None)"
| "digits acc prev_digit (c # cs) =
     (case digit_value c of
        Some d \<Rightarrow> digits (10 * acc + d) True cs
      | None \<Rightarrow> if c = CHR ''_'' \<and> prev_digit then digits acc False cs else None)"

text \<open>
  The interpreter refuses a literal of more digits than its setting
  \<open>sys.get_int_max_str_digits()\<close> allows (leading zeros count, underscores do not). The
  setting is a parameter: \<open>4300\<close> unless it was changed, and \<open>0\<close> when there is no
  limit, as in the interpreters that do not have the setting. Python accepts no other
  setting below \<open>640\<close>.
\<close>

definition count_digits :: "string \<Rightarrow> nat" where
  "count_digits s = length (filter (\<lambda>c. digit_value c \<noteq> None) s)"

definition py_int :: "nat \<Rightarrow> string \<Rightarrow> int option" where
  "py_int max_str_digits s =
     (if 0 < max_str_digits \<and> max_str_digits < count_digits s then None
      else
        (case strip s of
           [] \<Rightarrow> None
         | c # cs \<Rightarrow>
             if c = CHR ''-'' then map_option (\<lambda>n. - int n) (digits 0 False cs)
             else if c = CHR ''+'' then map_option int (digits 0 False cs)
             else map_option int (digits 0 False (c # cs))))"

text \<open>\<open>str(i)\<close> of an integer, as an f-string renders it.\<close>

definition digit_char :: "nat \<Rightarrow> char" where
  "digit_char n = ''0123456789'' ! n"

function str_nat :: "nat \<Rightarrow> string" where
  "str_nat n = (if n < 10 then [digit_char n] else str_nat (n div 10) @ [digit_char (n mod 10)])"
  by pat_completeness auto
termination
  by (relation "measure id") auto

definition str_int :: "int \<Rightarrow> string" where
  "str_int i = (if i < 0 then CHR ''-'' # str_nat (nat (- i)) else str_nat (nat i))"

text \<open>
  A call into a framework either returns or raises. What it does is not this file's to
  decide: an \<open>external\<close> says, from the calls made before and the call made now,
  whether the call raises (\<open>Some e\<close>) or returns (\<open>None\<close>).
\<close>

type_synonym 'c external = "'c list \<Rightarrow> 'c \<Rightarrow> py_exception option"

section \<open>Distributed initialisation\<close>

text \<open>
  \<open>os.environ\<close>, and its \<open>KeyError\<close> on a name that is not set. Names and values are
  strings of ASCII characters.
\<close>

type_synonym environ = "string \<rightharpoonup> string"

definition environ_getitem :: "environ \<Rightarrow> string \<Rightarrow> py_exception + string" where
  "environ_getitem environ k =
     (case environ k of None \<Rightarrow> Inl (KeyError k) | Some v \<Rightarrow> Inr v)"

definition int_str :: "nat \<Rightarrow> string \<Rightarrow> py_exception + int" where
  "int_str max_str_digits s =
     (case py_int max_str_digits s of None \<Rightarrow> Inl (ValueError s) | Some i \<Rightarrow> Inr i)"

text \<open>\<open>int(os.environ[k])\<close>: the lookup first, then the conversion.\<close>

definition int_environ :: "nat \<Rightarrow> environ \<Rightarrow> string \<Rightarrow> py_exception + int" where
  "int_environ max_str_digits environ k =
     (case environ_getitem environ k of
        Inl e \<Rightarrow> Inl e
      | Inr s \<Rightarrow> int_str max_str_digits s)"

text \<open>
  The two calls into the framework: \<open>dist.init_process_group(backend, init_method=...,
  world_size=..., rank=...)\<close> and \<open>torch.cuda.set_device(local_rank)\<close>.
\<close>

datatype dist_call =
    Init_process_group string string int int
  | Set_device int

text \<open>
  The body of the \<open>try\<close>: the exception that leaves it, if any, and the framework calls
  made, in order. Its first argument is the interpreter's digit limit, which \<open>int\<close>
  reads.
\<close>

definition try_block ::
  "nat \<Rightarrow> dist_call external \<Rightarrow> environ \<Rightarrow> py_exception option \<times> dist_call list" where
  "try_block max_str_digits lib environ =
     (case int_environ max_str_digits environ ''RANK'' of
        Inl e \<Rightarrow> (Some e, []) | Inr rank \<Rightarrow>
     (case int_environ max_str_digits environ ''LOCAL_RANK'' of
        Inl e \<Rightarrow> (Some e, []) | Inr local_rank \<Rightarrow>
     (case int_environ max_str_digits environ ''WORLD_SIZE'' of
        Inl e \<Rightarrow> (Some e, []) | Inr world_size \<Rightarrow>
     (case environ_getitem environ ''MASTER_ADDR'' of
        Inl e \<Rightarrow> (Some e, []) | Inr host \<Rightarrow>
     (case int_environ max_str_digits environ ''MASTER_PORT'' of
        Inl e \<Rightarrow> (Some e, []) | Inr port \<Rightarrow>
       (let init = Init_process_group ''nccl'' (''tcp://['' @ host @ '']:'' @ str_int port)
                     world_size rank
        in case lib [] init of
             Some e \<Rightarrow> (Some e, [init])
           | None \<Rightarrow> (lib [init] (Set_device local_rank), [init, Set_device local_rank])))))))"

text \<open>
  The two \<open>except\<close> clauses, in the order of the source: what leaves the function
  (\<open>None\<close> when it returns) for an exception \<open>e\<close> that left the \<open>try\<close>.
\<close>

definition could_not_find :: "string \<Rightarrow> string" where
  "could_not_find k =
     ''Could not find '' @ py_repr k @
     '' in the torch environment, visit https://www.colossalai.org/ for more information on launching with torch''"

fun except_clauses :: "bool \<Rightarrow> py_exception \<Rightarrow> py_exception option" where
  "except_clauses force (KeyError k) =
     (if force then Some (RuntimeError (could_not_find k)) else None)"
| "except_clauses force (BaseOnly n) = Some (BaseOnly n)"
| "except_clauses force e = (if force then Some e else None)"

text \<open>\<open>_try_init_dist\<close> (an Isabelle name cannot start with an underscore).\<close>

definition try_init_dist ::
  "nat \<Rightarrow> dist_call external \<Rightarrow> environ \<Rightarrow> bool \<Rightarrow> py_exception option \<times> dist_call list" where
  "try_init_dist max_str_digits lib environ force =
     (case try_block max_str_digits lib environ of
        (None, calls) \<Rightarrow> (None, calls)
      | (Some e, calls) \<Rightarrow> (except_clauses force e, calls))"

definition setup_distributed ::
  "nat \<Rightarrow> dist_call external \<Rightarrow> environ \<Rightarrow> py_exception option \<times> dist_call list" where
  "setup_distributed max_str_digits lib environ = try_init_dist max_str_digits lib environ False"

text \<open>The five variables, in the order the code reads them.\<close>

definition required_variables :: "string list" where
  "required_variables = [''RANK'', ''LOCAL_RANK'', ''WORLD_SIZE'', ''MASTER_ADDR'', ''MASTER_PORT'']"


section \<open>Saving a pretrained model\<close>

text \<open>
  The two serialization calls, \<open>unwrapped_model.save_pretrained(path)\<close> and
  \<open>tokenizer.save_pretrained(path)\<close>. The \<open>assert\<close> is a branch that raises
  \<open>AssertionError\<close> before any call is made.
\<close>

datatype 'tok save_call =
    Model_save_pretrained module string
  | Tokenizer_save_pretrained 'tok string

definition save_pretrained ::
  "(module \<Rightarrow> module) \<Rightarrow> 'tok save_call external \<Rightarrow> module \<Rightarrow> string \<Rightarrow> bool \<Rightarrow> 'tok option
     \<Rightarrow> py_exception option \<times> 'tok save_call list" where
  "save_pretrained unwrap_model io model path only_rank0 tokenizer =
     (let unwrapped_model = unwrap_model model
      in if \<not> is_pretrained unwrapped_model then (Some AssertionError, [])
         else
           (let save = Model_save_pretrained unwrapped_model path
            in case io [] save of
                 Some e \<Rightarrow> (Some e, [save])
               | None \<Rightarrow>
                   (case tokenizer of
                      None \<Rightarrow> (None, [save])
                    | Some t \<Rightarrow>
                        (io [save] (Tokenizer_save_pretrained t path),
                         [save, Tokenizer_save_pretrained t path]))))"

section \<open>The parameter-reading operations on a store of tensor objects\<close>

text \<open>
  To say what a call leaves unchanged, the tensors are objects in a store: a module
  holds the addresses of its parameters, \<open>detach()\<close> allocates a new tensor object on
  the storage of the old one, and the elements of a storage are the store's
  \<open>contents\<close>. Every operation takes the store and returns the store it leaves.
\<close>

type_synonym addr = nat

record 'd store =
  objects :: "addr \<Rightarrow> tensor"
  allocated :: nat
  contents :: "nat \<Rightarrow> 'd"

record module_ref =
  named_parameter_refs :: "addr ordered_dict"
  state_dict_refs :: "addr ordered_dict"

definition allocate :: "tensor \<Rightarrow> 'd store \<Rightarrow> addr \<times> 'd store" where
  "allocate t s =
     (allocated s,
      s\<lparr>objects := (objects s)(allocated s := t), allocated := Suc (allocated s)\<rparr>)"

definition detach_st :: "addr \<Rightarrow> 'd store \<Rightarrow> addr \<times> 'd store" where
  "detach_st a s = allocate (detach (objects s a)) s"

fun grad_required_loop_st ::
  "addr ordered_dict \<Rightarrow> addr ordered_dict \<Rightarrow> 'd store \<Rightarrow> addr ordered_dict \<times> 'd store" where
  "grad_required_loop_st sd [] s = (sd, s)"
| "grad_required_loop_st sd ((name, parameter) # rest) s =
     (if requires_grad (objects s parameter)
      then (case detach_st parameter s of
              (d, s') \<Rightarrow> grad_required_loop_st (setitem sd name d) rest s')
      else grad_required_loop_st sd rest s)"

definition get_grad_required_state_dict_st ::
  "module_ref \<Rightarrow> 'd store \<Rightarrow> addr ordered_dict \<times> 'd store" where
  "get_grad_required_state_dict_st model s =
     grad_required_loop_st [] (named_parameter_refs model) s"

text \<open>
  The framework's \<open>model.state_dict()\<close>, called with its default \<open>keep_vars=False\<close>:
  every parameter and persistent buffer is detached into the dictionary, under its own
  name.
\<close>

fun state_dict_loop_st :: "addr ordered_dict \<Rightarrow> 'd store \<Rightarrow> addr ordered_dict \<times> 'd store" where
  "state_dict_loop_st [] s = ([], s)"
| "state_dict_loop_st ((name, a) # rest) s =
     (case detach_st a s of
        (d, s') \<Rightarrow>
          (case state_dict_loop_st rest s' of (sd, s'') \<Rightarrow> ((name, d) # sd, s'')))"

definition state_dict_st :: "module_ref \<Rightarrow> 'd store \<Rightarrow> addr ordered_dict \<times> 'd store" where
  "state_dict_st model s = state_dict_loop_st (state_dict_refs model) s"

text \<open>The shard loop reads \<open>numel()\<close> and \<open>element_size()\<close> of the objects and writes nothing.\<close>

fun shard_loop_st ::
  "int \<Rightarrow> nat \<Rightarrow> addr ordered_dict \<Rightarrow> addr ordered_dict \<Rightarrow> 'd store \<Rightarrow> addr ordered_dict list" where
  "shard_loop_st shard_size accumulate_size state_dict_shard [] s =
     (if accumulate_size > 0 then [state_dict_shard] else [])"
| "shard_loop_st shard_size accumulate_size state_dict_shard ((name, param) # rest) s =
     (let state_dict_shard = setitem state_dict_shard name param;
          accumulate_size = accumulate_size + nbytes (objects s param)
      in if int accumulate_size \<ge> shard_size
         then state_dict_shard # shard_loop_st shard_size 0 [] rest s
         else shard_loop_st shard_size accumulate_size state_dict_shard rest s)"

definition get_model_state_dict_shard_st ::
  "(module_ref \<Rightarrow> module_ref) \<Rightarrow> module_ref \<Rightarrow> config \<Rightarrow> 'd store
     \<Rightarrow> addr ordered_dict list \<times> 'd store" where
  "get_model_state_dict_shard_st unwrap_model model cfg s =
     (let model = unwrap_model model
      in case (if config_requires_grad_only cfg = Some True
               then get_grad_required_state_dict_st model s
               else state_dict_st model s) of
           (sd, s') \<Rightarrow>
             (case config_shard_size cfg of
                Some shard_size \<Rightarrow> (shard_loop_st shard_size 0 [] sd s', s')
              | None \<Rightarrow> ([sd], s')))"

text \<open>
  What a dictionary of addresses holds in a store, and the module a holder of
  addresses is there: its parameters as they are, its state dict detached.
\<close>

definition deref :: "'d store \<Rightarrow> addr ordered_dict \<Rightarrow> tensor ordered_dict" where
  "deref s d = map (\<lambda>(name, a). (name, objects s a)) d"

definition module_in :: "'d store \<Rightarrow> module_ref \<Rightarrow> bool \<Rightarrow> module" where
  "module_in s model pretrained =
     \<lparr>named_parameters = deref s (named_parameter_refs model),
      state_dict = map (\<lambda>(name, t). (name, detach t)) (deref s (state_dict_refs model)),
      is_pretrained = pretrained\<rparr>"

text \<open>The addresses a module holds are addresses of objects of the store.\<close>

definition module_allocated :: "'d store \<Rightarrow> module_ref \<Rightarrow> bool" where
  "module_allocated s model \<longleftrightarrow>
     list_all (\<lambda>(name, a). a < allocated s) (named_parameter_refs model) \<and>
     list_all (\<lambda>(name, a). a < allocated s) (state_dict_refs model)"

text \<open>
  A call that takes the store from \<open>s\<close> to \<open>s'\<close> leaves the objects of \<open>s\<close> and the
  contents of every storage as they were; a dictionary is fresh when all its tensors
  were allocated between \<open>s\<close> and \<open>s'\<close>.
\<close>

definition unchanged :: "'d store \<Rightarrow> 'd store \<Rightarrow> bool" where
  "unchanged s s' \<longleftrightarrow>
     allocated s \<le> allocated s' \<and>
     (\<forall>a < allocated s. objects s' a = objects s a) \<and>
     contents s' = contents s"

definition fresh :: "'d store \<Rightarrow> 'd store \<Rightarrow> addr ordered_dict \<Rightarrow> bool" where
  "fresh s s' d \<longleftrightarrow> list_all (\<lambda>(name, a). allocated s \<le> a \<and> a < allocated s') d"

text \<open>
  The state dict the sharding method reads: the gradient filter's when
  \<open>requires_grad_only\<close> is set, the model's own otherwise.
\<close>

definition selected_state_dict :: "(module \<Rightarrow> module) \<Rightarrow> module \<Rightarrow> config \<Rightarrow> tensor ordered_dict" where
  "selected_state_dict unwrap_model model cfg =
     (if config_requires_grad_only cfg = Some True
      then get_grad_required_state_dict (unwrap_model model)
      else state_dict (unwrap_model model))"

section \<open>Concrete inputs\<close>

text \<open>
  A model of three float32 parameters, the second frozen, and a model whose state dict
  ends in a tensor of no elements (as \<open>torch.empty(0)\<close> is).
\<close>

definition float32 :: "nat \<Rightarrow> nat \<Rightarrow> bool \<Rightarrow> tensor" where
  "float32 st n grad = \<lparr>storage = st, numel = n, element_size = 4, requires_grad = grad\<rparr>"

definition example_model :: module where
  "example_model =
     \<lparr>named_parameters =
        [(''weight'', float32 0 6 True), (''bias'', float32 1 3 False),
         (''scale'', float32 2 1 True)],
      state_dict =
        [(''weight'', float32 0 6 False), (''bias'', float32 1 3 False),
         (''scale'', float32 2 1 False)],
      is_pretrained = True\<rparr>"

definition empty_tail_model :: module where
  "empty_tail_model =
     \<lparr>named_parameters = [(''weight'', float32 0 6 True), (''empty'', float32 1 0 True)],
      state_dict = [(''weight'', float32 0 6 False), (''empty'', float32 1 0 False)],
      is_pretrained = True\<rparr>"

definition plain_module :: module where
  "plain_module = \<lparr>named_parameters = [], state_dict = [], is_pretrained = False\<rparr>"

definition shard_config :: "int \<Rightarrow> config" where
  "shard_config n = \<lparr>config_requires_grad_only = None, config_shard_size = Some n\<rparr>"

definition whole_config :: config where
  "whole_config = \<lparr>config_requires_grad_only = None, config_shard_size = None\<rparr>"

text \<open>Frameworks whose calls all return, and one whose process-group call raises a \<open>KeyError\<close>.\<close>

definition never_raises :: "'c external" where
  "never_raises calls c = None"




definition environ_no_port :: environ where
  "environ_no_port = map_of
     [(''RANK'', ''0''), (''LOCAL_RANK'', ''0''), (''WORLD_SIZE'', ''1''),
      (''MASTER_ADDR'', ''localhost'')]"

text \<open>A store of the three parameters of the example model, and the module that holds them.\<close>

definition example_store :: "unit store" where
  "example_store =
     \<lparr>objects = (\<lambda>a. if a = 0 then float32 0 6 True else if a = 1 then float32 1 3 False
                        else float32 2 1 True),
      allocated = 3,
      contents = (\<lambda>st. ())\<rparr>"

definition example_module_ref :: module_ref where
  "example_module_ref =
     \<lparr>named_parameter_refs = [(''weight'', 0), (''bias'', 1), (''scale'', 2)],
      state_dict_refs = [(''weight'', 0), (''bias'', 1), (''scale'', 2)]\<rparr>"

section \<open>Ordered dictionaries\<close>

lemma setitem_fresh: "k \<notin> fst ` set d \<Longrightarrow> setitem d k v = d @ [(k, v)]"
  by (induction d) auto

lemma map_fst_setitem:
  "map fst (setitem d k v) = (if k \<in> set (map fst d) then map fst d else map fst d @ [k])"
  by (induction d) (auto simp: rev_image_eqI)

lemma keys_setitem: "fst ` set (setitem d k v) = insert k (fst ` set d)"
proof -
  have "set (map fst (setitem d k v)) = insert k (set (map fst d))"
    unfolding map_fst_setitem by auto
  then show ?thesis by simp
qed

lemma distinct_setitem: "distinct (map fst d) \<Longrightarrow> distinct (map fst (setitem d k v))"
  by (simp add: map_fst_setitem)

lemma setitem_not_Nil: "setitem d k v \<noteq> []"
  by (cases d) (auto split: if_splits)

lemma set_setitem_subset: "set (setitem d k v) \<subseteq> insert (k, v) (set d)"
  by (induction d) (auto split: if_splits)

lemma list_all_setitem:
  "list_all P d \<Longrightarrow> P (k, v) \<Longrightarrow> list_all P (setitem d k v)"
  by (induction d) auto

section \<open>The gradient filter returns the parameters that require grad\<close>

lemma keys_grad_required_loop:
  "fst ` set (grad_required_loop sd ps) =
     fst ` set sd \<union> {n. \<exists>p. (n, p) \<in> set ps \<and> requires_grad p}"
  by (induction sd ps rule: grad_required_loop.induct) (auto simp: keys_setitem)

lemma distinct_grad_required_loop:
  "distinct (map fst sd) \<Longrightarrow> distinct (map fst (grad_required_loop sd ps))"
  by (induction sd ps rule: grad_required_loop.induct) (auto simp: distinct_setitem)

lemma grad_required_loop_distinct:
  "distinct (map fst sd @ map fst ps) \<Longrightarrow>
   grad_required_loop sd ps =
     sd @ map (\<lambda>(n, p). (n, detach p)) (filter (\<lambda>(n, p). requires_grad p) ps)"
proof (induction sd ps rule: grad_required_loop.induct)
  case (1 sd)
  then show ?case by simp
next
  case (2 sd name parameter rest)
  show ?case
  proof (cases "requires_grad parameter")
    case True
    from "2.prems" have unseen: "name \<notin> fst ` set sd" by auto
    from "2.prems" have "distinct (map fst (sd @ [(name, detach parameter)]) @ map fst rest)"
      by auto
    with "2.IH" True unseen show ?thesis by (simp add: setitem_fresh)
  next
    case False
    from "2.prems" have "distinct (map fst sd @ map fst rest)" by auto
    with "2.IH" False show ?thesis by simp
  qed
qed

text \<open>
  C1. A name is a key of \<open>get_grad_required_state_dict model\<close> exactly when the model has
  a named parameter of that name that requires grad. The names of a module's parameters
  are distinct, and then the result is the list of the parameters that require grad, in
  the order \<open>named_parameters()\<close> gives them, each with its detached tensor.
\<close>

theorem get_grad_required_state_dict_filter:
  "(name \<in> fst ` set (get_grad_required_state_dict model) \<longleftrightarrow>
      (\<exists>p. (name, p) \<in> set (named_parameters model) \<and> requires_grad p)) \<and>
   (distinct (map fst (named_parameters model)) \<longrightarrow>
      get_grad_required_state_dict model =
        map (\<lambda>(n, p). (n, detach p))
          (filter (\<lambda>(n, p). requires_grad p) (named_parameters model)))"
  unfolding get_grad_required_state_dict_def
  using keys_grad_required_loop [of "[]" "named_parameters model"]
    grad_required_loop_distinct [of "[]" "named_parameters model"]
  by auto

theorem get_grad_required_state_dict_filter_witness:
  "distinct (map fst (named_parameters example_model)) \<and>
   get_grad_required_state_dict example_model =
     [(''weight'', float32 0 6 False), (''scale'', float32 2 1 False)]"
  using get_grad_required_state_dict_filter [of "''weight''" example_model]
  by (simp add: example_model_def float32_def detach_def)

section \<open>Shards of a state dict\<close>

lemma chunk_bytes_append: "chunk_bytes (c @ [(k, v)]) = chunk_bytes c + nbytes v"
  by (simp add: chunk_bytes_def)

lemma shard_loop_nonempty:
  "(0 < acc \<longrightarrow> cur \<noteq> []) \<Longrightarrow> c \<in> set (shard_loop s acc cur sd) \<Longrightarrow> c \<noteq> []"
proof (induction s acc cur sd rule: shard_loop.induct)
  case (1 s acc cur)
  then show ?case by (auto split: if_splits)
next
  case (2 s acc cur name param rest)
  then show ?case
    by (auto simp: Let_def setitem_not_Nil setitem_not_Nil [THEN not_sym] split: if_splits)
qed

lemma shard_loop_full:
  "acc = chunk_bytes cur \<Longrightarrow> distinct (map fst cur @ map fst sd) \<Longrightarrow>
   c \<in> set (butlast (shard_loop s acc cur sd)) \<Longrightarrow> s \<le> int (chunk_bytes c)"
proof (induction s acc cur sd rule: shard_loop.induct)
  case (1 s acc cur)
  then show ?case by (auto split: if_splits)
next
  case (2 s acc cur name param rest)
  from "2.prems"(2) have unseen: "name \<notin> fst ` set cur" by auto
  then have upd: "setitem cur name param = cur @ [(name, param)]"
    by (rule setitem_fresh)
  let ?cur = "cur @ [(name, param)]"
  let ?acc = "acc + nbytes param"
  have acc: "?acc = chunk_bytes ?cur"
    using "2.prems"(1) by (simp add: chunk_bytes_append)
  show ?case
  proof (cases "s \<le> int ?acc")
    case True
    have d: "distinct (map fst [] @ map fst rest)" using "2.prems"(2) by simp
    from "2.prems"(3) True upd
    have "c \<in> set (butlast (?cur # shard_loop s 0 [] rest))" by (simp add: Let_def)
    then consider "c = ?cur" | "c \<in> set (butlast (shard_loop s 0 [] rest))"
      by (auto split: if_splits)
    then show ?thesis
    proof cases
      case 1
      with True acc show ?thesis by simp
    next
      case 2
      show ?thesis
        using "2.IH"(1) [OF refl refl] True upd d 2 by (simp add: chunk_bytes_def)
    qed
  next
    case False
    have d: "distinct (map fst ?cur @ map fst rest)" using "2.prems"(2) by auto
    from "2.prems"(3) False upd
    have m: "c \<in> set (butlast (shard_loop s ?acc ?cur rest))" by (simp add: Let_def)
    show ?thesis
      using "2.IH"(2) [OF refl refl] False upd acc d m by simp
  qed
qed

lemma shard_loop_concat:
  "(cur \<noteq> [] \<longrightarrow> 0 < acc) \<Longrightarrow> distinct (map fst cur @ map fst sd) \<Longrightarrow>
   \<forall>(k, v) \<in> set sd. 0 < nbytes v \<Longrightarrow>
   concat (shard_loop s acc cur sd) = cur @ sd"
proof (induction s acc cur sd rule: shard_loop.induct)
  case (1 s acc cur)
  then show ?case by auto
next
  case (2 s acc cur name param rest)
  from "2.prems"(2) have unseen: "name \<notin> fst ` set cur" by auto
  then have upd: "setitem cur name param = cur @ [(name, param)]"
    by (rule setitem_fresh)
  let ?cur = "cur @ [(name, param)]"
  let ?acc = "acc + nbytes param"
  from "2.prems"(3) have pos: "0 < nbytes param" and rest: "\<forall>(k, v) \<in> set rest. 0 < nbytes v"
    by auto
  show ?case
  proof (cases "s \<le> int ?acc")
    case True
    have d: "distinct (map fst [] @ map fst rest)" using "2.prems"(2) by simp
    have "concat (shard_loop s 0 [] rest) = [] @ rest"
      using "2.IH"(1) [OF refl refl] True upd d rest by simp
    with True upd show ?thesis by (simp add: Let_def)
  next
    case False
    have d: "distinct (map fst ?cur @ map fst rest)" using "2.prems"(2) by auto
    have "concat (shard_loop s ?acc ?cur rest) = ?cur @ rest"
      using "2.IH"(2) [OF refl refl] False upd pos d rest by simp
    with False upd show ?thesis by (simp add: Let_def)
  qed
qed

lemma get_model_state_dict_shard_selected:
  "get_model_state_dict_shard unwrap_model model cfg =
     (case config_shard_size cfg of
        Some shard_size \<Rightarrow> shard_loop shard_size 0 [] (selected_state_dict unwrap_model model cfg)
      | None \<Rightarrow> [selected_state_dict unwrap_model model cfg])"
  by (cases "config_shard_size cfg")
     (simp_all add: get_model_state_dict_shard_def selected_state_dict_def Let_def)

lemma distinct_selected_state_dict:
  "distinct (map fst (state_dict (unwrap_model model))) \<Longrightarrow>
   distinct (map fst (selected_state_dict unwrap_model model cfg))"
  using distinct_grad_required_loop [of "[]" "named_parameters (unwrap_model model)"]
  by (simp add: selected_state_dict_def get_grad_required_state_dict_def)

text \<open>
  When every tensor of the state dict has at least one byte, the shards, one after the
  other, are the state dict.
\<close>

lemma get_model_state_dict_shard_concat:
  assumes "distinct (map fst (state_dict (unwrap_model model)))"
    and "\<forall>(k, v) \<in> set (selected_state_dict unwrap_model model cfg). 0 < nbytes v"
  shows "concat (get_model_state_dict_shard unwrap_model model cfg) =
           selected_state_dict unwrap_model model cfg"
proof (cases "config_shard_size cfg")
  case None
  then show ?thesis by (simp add: get_model_state_dict_shard_selected)
next
  case (Some n)
  have "distinct (map fst [] @ map fst (selected_state_dict unwrap_model model cfg))"
    using distinct_selected_state_dict [of unwrap_model model cfg] assms(1) by simp
  with shard_loop_concat [of "[]" 0 "selected_state_dict unwrap_model model cfg" n] assms(2) Some
  show ?thesis by (simp add: get_model_state_dict_shard_selected)
qed

text \<open>
  C9. When \<open>shard_size\<close> is given, no yielded shard is empty, every yielded shard but
  the last holds at least \<open>shard_size\<close> bytes (the names of a state dict are distinct),
  and an empty state dict yields nothing. When \<open>shard_size\<close> is not given, exactly one
  mapping is yielded, the state dict itself, also when it is empty.
\<close>

theorem shards_nonempty_and_full:
  "(config_shard_size cfg = Some shard_size \<longrightarrow>
      (\<forall>chunk \<in> set (get_model_state_dict_shard unwrap_model model cfg). chunk \<noteq> []) \<and>
      (distinct (map fst (state_dict (unwrap_model model))) \<longrightarrow>
         (\<forall>chunk \<in> set (butlast (get_model_state_dict_shard unwrap_model model cfg)).
            shard_size \<le> int (chunk_bytes chunk))) \<and>
      (selected_state_dict unwrap_model model cfg = [] \<longrightarrow>
         get_model_state_dict_shard unwrap_model model cfg = [])) \<and>
   (config_shard_size cfg = None \<longrightarrow>
      get_model_state_dict_shard unwrap_model model cfg =
        [selected_state_dict unwrap_model model cfg])"
proof -
  let ?sd = "selected_state_dict unwrap_model model cfg"
  have nonempty: "chunk \<noteq> []" if "chunk \<in> set (shard_loop shard_size 0 [] ?sd)" for chunk
    using shard_loop_nonempty [of 0 "[]" chunk shard_size ?sd] that by simp
  have full: "shard_size \<le> int (chunk_bytes chunk)"
    if "distinct (map fst (state_dict (unwrap_model model)))"
      and "chunk \<in> set (butlast (shard_loop shard_size 0 [] ?sd))" for chunk
  proof -
    have "distinct (map fst [] @ map fst ?sd)"
      using distinct_selected_state_dict [of unwrap_model model cfg] that(1) by simp
    with shard_loop_full [of 0 "[]" ?sd chunk shard_size] that(2) show ?thesis
      by (simp add: chunk_bytes_def)
  qed
  show ?thesis
    using nonempty full by (auto simp: get_model_state_dict_shard_selected)
qed

theorem shards_nonempty_and_full_witness:
  "config_shard_size (shard_config 16) = Some 16 \<and>
   distinct (map fst (state_dict example_model)) \<and>
   get_model_state_dict_shard id example_model (shard_config 16) =
     [[(''weight'', float32 0 6 False)],
      [(''bias'', float32 1 3 False), (''scale'', float32 2 1 False)]] \<and>
   [] \<notin> set (get_model_state_dict_shard id example_model (shard_config 16)) \<and>
   list_all (\<lambda>chunk. 16 \<le> int (chunk_bytes chunk))
     (butlast (get_model_state_dict_shard id example_model (shard_config 16))) \<and>
   config_shard_size whole_config = None \<and>
   get_model_state_dict_shard id plain_module whole_config = [[]] \<and>
   get_model_state_dict_shard id plain_module (shard_config 16) = []"
proof -
  have ev: "get_model_state_dict_shard id example_model (shard_config 16) =
     [[(''weight'', float32 0 6 False)],
      [(''bias'', float32 1 3 False), (''scale'', float32 2 1 False)]]"
    by (simp add: get_model_state_dict_shard_def shard_config_def example_model_def
        float32_def nbytes_def Let_def)
  have sel: "selected_state_dict id plain_module (shard_config 16) = []"
    "selected_state_dict id plain_module whole_config = []"
    by (simp_all add: selected_state_dict_def shard_config_def whole_config_def plain_module_def)
  have cfg: "config_shard_size (shard_config 16) = Some 16" "config_shard_size whole_config = None"
    by (simp_all add: shard_config_def whole_config_def)
  have d: "distinct (map fst (state_dict example_model))"
    by (simp add: example_model_def)
  from shards_nonempty_and_full [of "shard_config 16" 16 id example_model] cfg d
  have "[] \<notin> set (get_model_state_dict_shard id example_model (shard_config 16))"
    and "list_all (\<lambda>chunk. 16 \<le> int (chunk_bytes chunk))
     (butlast (get_model_state_dict_shard id example_model (shard_config 16)))"
    by (auto simp: list_all_iff)
  moreover from shards_nonempty_and_full [of "shard_config 16" 16 id plain_module] cfg sel
  have "get_model_state_dict_shard id plain_module (shard_config 16) = []" by simp
  moreover from shards_nonempty_and_full [of whole_config 16 id plain_module] cfg sel
  have "get_model_state_dict_shard id plain_module whole_config = [[]]" by simp
  ultimately show ?thesis using ev cfg d by simp
qed

text \<open>
  C6. A state dict that ends in a tensor of no bytes: the entry is put into the current
  shard, the byte count stays \<open>0\<close>, and the test after the loop, which reads the byte
  count, does not yield the shard. The shards then do not concatenate to the state dict.
\<close>

theorem shards_drop_empty_tail:
  "get_model_state_dict_shard id empty_tail_model (shard_config 16) =
     [[(''weight'', float32 0 6 False)]] \<and>
   concat (get_model_state_dict_shard id empty_tail_model (shard_config 16)) \<noteq>
     state_dict empty_tail_model"
  by (simp add: get_model_state_dict_shard_def shard_config_def empty_tail_model_def
      float32_def nbytes_def Let_def)

section \<open>Distributed initialisation: what is called and what is raised\<close>

lemma int_environ_None:
  "environ k = None \<Longrightarrow> int_environ max_str_digits environ k = Inl (KeyError k)"
  by (simp add: int_environ_def environ_getitem_def)

lemma int_environ_cases:
  obtains (missing) "environ k = None" "int_environ max_str_digits environ k = Inl (KeyError k)"
  | (invalid) s where "environ k = Some s" "py_int max_str_digits s = None"
      "int_environ max_str_digits environ k = Inl (ValueError s)"
  | (parsed) s i where "environ k = Some s" "py_int max_str_digits s = Some i"
      "int_environ max_str_digits environ k = Inr i"
  by (cases "environ k"; cases "py_int max_str_digits (the (environ k))")
     (auto simp: int_environ_def environ_getitem_def int_str_def)


lemma except_clauses_False: "is_Exception e \<Longrightarrow> except_clauses False e = None"
  by (cases e) simp_all



lemma try_block_missing:
  assumes "k \<in> set required_variables" and "environ k = None"
  shows "\<exists>e. try_block max_str_digits lib environ = (Some e, []) \<and> is_Exception e"
proof -
  have addr: "environ ''MASTER_ADDR'' = None \<Longrightarrow>
      environ_getitem environ ''MASTER_ADDR'' = Inl (KeyError ''MASTER_ADDR'')"
    by (simp add: environ_getitem_def)
  note rank = int_environ_cases [where environ = environ and k = "''RANK''"
      and max_str_digits = max_str_digits]
  note local_rank = int_environ_cases [where environ = environ and k = "''LOCAL_RANK''"
      and max_str_digits = max_str_digits]
  note world_size = int_environ_cases [where environ = environ and k = "''WORLD_SIZE''"
      and max_str_digits = max_str_digits]
  from assms consider "environ ''RANK'' = None" | "environ ''LOCAL_RANK'' = None"
    | "environ ''WORLD_SIZE'' = None" | "environ ''MASTER_ADDR'' = None"
    | "environ ''MASTER_PORT'' = None"
    by (auto simp: required_variables_def)
  then show ?thesis
  proof cases
    case 1
    then show ?thesis by (simp add: try_block_def int_environ_None)
  next
    case 2
    then show ?thesis
      by (cases rule: rank) (simp_all add: try_block_def int_environ_None)
  next
    case 3
    then show ?thesis
      by (cases rule: rank; cases rule: local_rank)
         (simp_all add: try_block_def int_environ_None)
  next
    case 4
    then show ?thesis
      by (cases rule: rank; cases rule: local_rank; cases rule: world_size)
         (simp_all add: try_block_def addr)
  next
    case 5
    then show ?thesis
      by (cases rule: rank; cases rule: local_rank; cases rule: world_size;
          cases "environ ''MASTER_ADDR''")
         (simp_all add: try_block_def int_environ_None environ_getitem_def)
  qed
qed



text \<open>
  What \<open>int\<close> accepts and refuses: space, tab and line feed around the literal, a sign
  and a grouping underscore are accepted; a control character that is no whitespace, a
  blank after the sign, a doubled, leading or trailing underscore, the empty string and
  a literal over the digit limit are refused.
\<close>

lemma py_int_accepts:
  "py_int 4300 [CHR 0x20, CHR 0x09, CHR ''-'', CHR ''1'', CHR ''_'', CHR ''0'', CHR 0x0A] =
     Some (- 10)"
  "py_int 4300 ''+007'' = Some 7"
  by (simp_all add: py_int_def count_digits_def strip_def is_space_def digit_value_def)

lemma py_int_refuses:
  "py_int 4300 [CHR 0x1C, CHR ''0''] = None" "py_int 4300 ''- 1'' = None"
  "py_int 4300 ''1__0'' = None" "py_int 4300 ''_1'' = None" "py_int 4300 ''1_'' = None"
  "py_int 4300 [] = None"
  by (simp_all add: py_int_def count_digits_def strip_def is_space_def digit_value_def)

lemma py_int_over_limit:
  "0 < max_str_digits \<Longrightarrow> max_str_digits < count_digits s \<Longrightarrow>
   py_int max_str_digits s = None"
  by (simp add: py_int_def)



text \<open>
  C3. With one of the five variables not set and \<open>force\<close> false, \<open>_try_init_dist\<close>
  returns, and so does \<open>setup_distributed\<close>; no framework call is made.
\<close>

theorem try_init_dist_missing_unforced:
  assumes "k \<in> set required_variables" and "environ k = None"
  shows "try_init_dist max_str_digits lib environ False = (None, []) \<and>
         setup_distributed max_str_digits lib environ = (None, [])"
proof -
  from try_block_missing [where k = k and environ = environ and lib = lib
      and max_str_digits = max_str_digits] assms
  obtain e where "try_block max_str_digits lib environ = (Some e, [])" and "is_Exception e"
    by blast
  then show ?thesis
    by (simp add: setup_distributed_def try_init_dist_def except_clauses_False)
qed

theorem try_init_dist_missing_unforced_witness:
  "''MASTER_PORT'' \<in> set required_variables \<and> environ_no_port ''MASTER_PORT'' = None \<and>
   try_init_dist 4300 never_raises environ_no_port False = (None, []) \<and>
   setup_distributed 4300 never_raises environ_no_port = (None, [])"
proof -
  have k: "''MASTER_PORT'' \<in> set required_variables" by (simp add: required_variables_def)
  have e: "environ_no_port ''MASTER_PORT'' = None" by (simp add: environ_no_port_def)
  from try_init_dist_missing_unforced
    [where k = "''MASTER_PORT''" and environ = environ_no_port and lib = never_raises
      and max_str_digits = 4300] k e
  show ?thesis by simp
qed







section \<open>The store: what the parameter-reading operations leave unchanged\<close>

lemma deref_setitem: "deref s (setitem d k a) = setitem (deref s d) k (objects s a)"
  by (induction d) (auto simp: deref_def)

lemma unchanged_refl: "unchanged s s"
  by (simp add: unchanged_def)

lemma unchanged_trans: "unchanged s s' \<Longrightarrow> unchanged s' s'' \<Longrightarrow> unchanged s s''"
  by (auto simp: unchanged_def)

lemma detach_st_facts:
  assumes "detach_st a s = (d, s')"
  shows "d = allocated s" and "allocated s' = Suc (allocated s)"
    and "objects s' d = detach (objects s a)" and "unchanged s s'"
  using assms by (auto simp: detach_st_def allocate_def unchanged_def)

lemma deref_unchanged:
  "unchanged s s' \<Longrightarrow> list_all (\<lambda>(name, a). a < allocated s) d \<Longrightarrow> deref s' d = deref s d"
  by (induction d) (auto simp: deref_def unchanged_def)

lemma list_all_allocated_mono:
  "list_all (\<lambda>(name, a). a < n) d \<Longrightarrow> n \<le> m \<Longrightarrow> list_all (\<lambda>(name, a :: nat). a < m) d"
  by (induction d) auto

lemma grad_required_loop_st_sound:
  assumes "grad_required_loop_st sd ps s = (r, s')"
    and "list_all (\<lambda>(name, a). a < allocated s) sd"
    and "list_all (\<lambda>(name, a). a < allocated s) ps"
  shows "unchanged s s' \<and>
         list_all (\<lambda>(name, a). a < allocated s') r \<and>
         deref s' r = grad_required_loop (deref s sd) (deref s ps) \<and>
         list_all (\<lambda>(name, a). (name, a) \<in> set sd \<or> allocated s \<le> a) r"
  using assms
proof (induction ps arbitrary: sd s)
  case Nil
  then show ?case by (auto simp: unchanged_refl deref_def list_all_iff)
next
  case (Cons p ps)
  obtain name a where p: "p = (name, a)" by (cases p)
  from Cons.prems(3) p have a: "a < allocated s"
    and ps: "list_all (\<lambda>(name, a). a < allocated s) ps" by auto
  show ?case
  proof (cases "requires_grad (objects s a)")
    case False
    with Cons.prems(1) p have run: "grad_required_loop_st sd ps s = (r, s')" by simp
    have step: "deref s (p # ps) = (name, objects s a) # deref s ps"
      using p by (simp add: deref_def)
    from Cons.IH [OF run Cons.prems(2) ps] False show ?thesis
      by (simp add: step)
  next
    case True
    obtain d s1 where det: "detach_st a s = (d, s1)" by (cases "detach_st a s")
    note f = detach_st_facts [OF det]
    from Cons.prems(1) p True det
    have run: "grad_required_loop_st (setitem sd name d) ps s1 = (r, s')" by simp
    have "list_all (\<lambda>(name, a). a < allocated s1) sd"
      using Cons.prems(2) f(2) list_all_allocated_mono [of "allocated s" sd "allocated s1"]
      by simp
    then have sd1: "list_all (\<lambda>(name, a). a < allocated s1) (setitem sd name d)"
    proof (rule list_all_setitem)
      show "case (name, d) of (name, a) \<Rightarrow> a < allocated s1" using f(1,2) by simp
    qed
    have ps1: "list_all (\<lambda>(name, a). a < allocated s1) ps"
      using ps f(2) list_all_allocated_mono [of "allocated s" ps "allocated s1"] by simp
    note IH = Cons.IH [OF run sd1 ps1]
    have "deref s1 sd = deref s sd"
      using f(4) Cons.prems(2) by (rule deref_unchanged)
    then have e1: "deref s1 (setitem sd name d) = setitem (deref s sd) name (detach (objects s a))"
      using f(3) by (simp add: deref_setitem)
    have e2: "deref s1 ps = deref s ps"
      using f(4) ps by (rule deref_unchanged)
    have step: "deref s (p # ps) = (name, objects s a) # deref s ps"
      using p by (simp add: deref_def)
    from IH have "deref s' r = grad_required_loop (deref s1 (setitem sd name d)) (deref s1 ps)"
      by simp
    then have val: "deref s' r = grad_required_loop (deref s sd) (deref s (p # ps))"
      using True by (simp add: e1 e2 step)
    have fr: "list_all (\<lambda>(name, a). (name, a) \<in> set sd \<or> allocated s \<le> a) r"
    proof -
      have "set (setitem sd name d) \<subseteq> insert (name, d) (set sd)"
        by (rule set_setitem_subset)
      with IH f(1,2) show ?thesis
        by (auto simp: list_all_iff)
    qed
    from IH f(4) val fr show ?thesis
      by (auto intro: unchanged_trans)
  qed
qed

lemma state_dict_loop_st_sound:
  assumes "state_dict_loop_st ps s = (r, s')"
    and "list_all (\<lambda>(name, a). a < allocated s) ps"
  shows "unchanged s s' \<and>
         list_all (\<lambda>(name, a). allocated s \<le> a \<and> a < allocated s') r \<and>
         deref s' r = map (\<lambda>(name, t). (name, detach t)) (deref s ps)"
  using assms
proof (induction ps arbitrary: s r s')
  case Nil
  then show ?case by (auto simp: unchanged_refl deref_def)
next
  case (Cons p ps)
  obtain name a where p: "p = (name, a)" by (cases p)
  obtain d s1 where det: "detach_st a s = (d, s1)" by (cases "detach_st a s")
  obtain r1 s2 where run: "state_dict_loop_st ps s1 = (r1, s2)"
    by (cases "state_dict_loop_st ps s1")
  note f = detach_st_facts [OF det]
  from Cons.prems(1) p det run have r: "r = (name, d) # r1" and s': "s' = s2" by auto
  from Cons.prems(2) p have ps: "list_all (\<lambda>(name, a). a < allocated s) ps" by simp
  have ps1: "list_all (\<lambda>(name, a). a < allocated s1) ps"
    using ps f(2) list_all_allocated_mono [of "allocated s" ps "allocated s1"] by simp
  note IH = Cons.IH [OF run ps1]
  have d2: "objects s2 d = detach (objects s a)"
    using IH f(1,2,3) by (auto simp: unchanged_def)
  have e: "deref s1 ps = deref s ps" using f(4) ps by (rule deref_unchanged)
  have step: "deref s (p # ps) = (name, objects s a) # deref s ps"
    and step': "deref s' r = (name, objects s2 d) # deref s2 r1"
    using p by (simp_all add: deref_def r s')
  from IH have "deref s2 r1 = map (\<lambda>(name, t). (name, detach t)) (deref s1 ps)" by simp
  then have val: "deref s' r = map (\<lambda>(name, t). (name, detach t)) (deref s (p # ps))"
    by (simp add: step step' d2 e)
  have "list_all (\<lambda>(name, a). allocated s \<le> a \<and> a < allocated s') r"
    using IH f(1,2) by (auto simp: r s' list_all_iff unchanged_def)
  with IH f(4) val show ?case by (auto simp: s' intro: unchanged_trans)
qed

lemma shard_loop_st_sound:
  "map (deref s) (shard_loop_st n acc cur sd s) = shard_loop n acc (deref s cur) (deref s sd)"
proof (induction n acc cur sd s rule: shard_loop_st.induct)
  case (1 n acc cur s)
  then show ?case by (simp add: deref_def)
next
  case (2 n acc cur name param rest s)
  have step: "deref s ((name, param) # rest) = (name, objects s param) # deref s rest"
    by (simp add: deref_def)
  show ?case
  proof (cases "n \<le> int (acc + nbytes (objects s param))")
    case True
    with "2.IH"(1) [OF refl refl] show ?thesis
      by (simp add: step deref_setitem Let_def) (simp add: deref_def)
  next
    case False
    with "2.IH"(2) [OF refl refl] show ?thesis
      by (simp add: step deref_setitem Let_def)
  qed
qed

lemma shard_loop_st_entries:
  "c \<in> set (shard_loop_st n acc cur sd s) \<Longrightarrow> set c \<subseteq> set cur \<union> set sd"
proof (induction n acc cur sd s rule: shard_loop_st.induct)
  case (1 n acc cur s)
  then show ?case by (auto split: if_splits)
next
  case (2 n acc cur name param rest s)
  have sub: "set (setitem cur name param) \<subseteq> insert (name, param) (set cur)"
    by (rule set_setitem_subset)
  show ?case
  proof (cases "n \<le> int (acc + nbytes (objects s param))")
    case True
    with "2.prems" consider "c = setitem cur name param"
      | "c \<in> set (shard_loop_st n 0 [] rest s)"
      by (auto simp: Let_def)
    then show ?thesis
    proof cases
      case 1
      with sub show ?thesis by auto
    next
      case 2
      with "2.IH"(1) [OF refl refl] True show ?thesis by auto
    qed
  next
    case False
    with "2.prems" have "c \<in> set (shard_loop_st n (acc + nbytes (objects s param))
        (setitem cur name param) rest s)"
      by (simp add: Let_def)
    with "2.IH"(2) [OF refl refl] False sub show ?thesis by auto
  qed
qed

lemma module_in_unchanged:
  "unchanged s s' \<Longrightarrow> module_allocated s model \<Longrightarrow>
   module_in s' model p = module_in s model p"
  by (simp add: module_in_def module_allocated_def deref_unchanged)

lemma module_allocated_unchanged:
  "unchanged s s' \<Longrightarrow> module_allocated s model \<Longrightarrow> module_allocated s' model"
  using list_all_allocated_mono [of "allocated s" _ "allocated s'"]
  by (auto simp: module_allocated_def unchanged_def)

lemma get_grad_required_state_dict_st_sound:
  assumes "module_allocated s model"
    and "get_grad_required_state_dict_st model s = (sd, s')"
  shows "unchanged s s' \<and> fresh s s' sd \<and>
         deref s' sd = get_grad_required_state_dict (module_in s model p)"
proof -
  have ps: "list_all (\<lambda>(name, a). a < allocated s) (named_parameter_refs model)"
    using assms(1) by (simp add: module_allocated_def)
  have "list_all (\<lambda>(name, a). a < allocated s) []" by simp
  from grad_required_loop_st_sound [OF _ this ps, of sd s'] assms(2)
  have "unchanged s s'" and "list_all (\<lambda>(name, a). a < allocated s') sd"
    and "deref s' sd = grad_required_loop (deref s []) (deref s (named_parameter_refs model))"
    and "list_all (\<lambda>(name, a). (name, a) \<in> set [] \<or> allocated s \<le> a) sd"
    by (simp_all add: get_grad_required_state_dict_st_def)
  then show ?thesis
    by (auto simp: fresh_def list_all_iff get_grad_required_state_dict_def module_in_def
        deref_def)
qed

lemma state_dict_st_sound:
  assumes "module_allocated s model"
    and "state_dict_st model s = (sd, s')"
  shows "unchanged s s' \<and> fresh s s' sd \<and> deref s' sd = state_dict (module_in s model p)"
proof -
  have ps: "list_all (\<lambda>(name, a). a < allocated s) (state_dict_refs model)"
    using assms(1) by (simp add: module_allocated_def)
  from state_dict_loop_st_sound [OF _ ps, of sd s'] assms(2)
  show ?thesis by (simp add: state_dict_st_def fresh_def module_in_def)
qed

lemma get_model_state_dict_shard_st_sound:
  assumes "module_allocated s (unwrap_model model)"
    and "get_model_state_dict_shard_st unwrap_model model cfg s = (chunks, s')"
  shows "unchanged s s' \<and> list_all (fresh s s') chunks \<and>
         map (deref s') chunks =
           get_model_state_dict_shard id (module_in s (unwrap_model model) p) cfg"
proof -
  let ?m = "unwrap_model model"
  let ?read = "if config_requires_grad_only cfg = Some True
               then get_grad_required_state_dict_st ?m s else state_dict_st ?m s"
  obtain sd s1 where rd: "?read = (sd, s1)" by (cases ?read)
  have sound: "unchanged s s1 \<and> fresh s s1 sd \<and>
      deref s1 sd = selected_state_dict id (module_in s ?m p) cfg"
  proof (cases "config_requires_grad_only cfg = Some True")
    case True
    with rd get_grad_required_state_dict_st_sound [OF assms(1), of sd s1 p]
    show ?thesis by (simp add: selected_state_dict_def)
  next
    case False
    with rd state_dict_st_sound [OF assms(1), of sd s1 p]
    show ?thesis by (simp add: selected_state_dict_def)
  qed
  have s': "s' = s1"
    and chunks: "chunks = (case config_shard_size cfg of
        Some shard_size \<Rightarrow> shard_loop_st shard_size 0 [] sd s1 | None \<Rightarrow> [sd])"
    using assms(2) rd
    by (auto simp: get_model_state_dict_shard_st_def Let_def split: option.splits)
  have fr: "list_all (fresh s s1) chunks"
  proof (cases "config_shard_size cfg")
    case None
    with chunks sound show ?thesis by simp
  next
    case (Some n)
    have "fresh s s1 c" if "c \<in> set (shard_loop_st n 0 [] sd s1)" for c
      using shard_loop_st_entries [OF that] sound
      by (auto simp: fresh_def list_all_iff)
    with chunks Some show ?thesis by (simp add: list_all_iff)
  qed
  have "map (deref s1) chunks = get_model_state_dict_shard id (module_in s ?m p) cfg"
    using chunks sound
    by (cases "config_shard_size cfg")
       (simp_all add: get_model_state_dict_shard_selected shard_loop_st_sound deref_def)
  with sound fr s' show ?thesis by simp
qed

text \<open>
  C8. A call of \<open>get_grad_required_state_dict\<close> or of \<open>get_model_state_dict_shard\<close> on a
  module whose tensors are in the store leaves every object of the store and the
  contents of every storage as they were, so that the module has the same parameter
  names, flags and tensors after the call as before it. Nothing is kept between calls:
  the tensors a call returns are allocated by that call, and a second call allocates
  its own and returns the same values.
\<close>

theorem parameter_reads_leave_model_unchanged:
  assumes "module_allocated s model" and "module_allocated s (unwrap_model model)"
  shows
    "(case get_grad_required_state_dict_st model s of
        (sd, s') \<Rightarrow>
          unchanged s s' \<and> module_in s' model p = module_in s model p \<and> fresh s s' sd \<and>
          (case get_grad_required_state_dict_st model s' of
             (sd2, s'') \<Rightarrow> fresh s' s'' sd2 \<and> deref s'' sd2 = deref s' sd)) \<and>
     (case get_model_state_dict_shard_st unwrap_model model cfg s of
        (chunks, s') \<Rightarrow>
          unchanged s s' \<and> module_in s' model p = module_in s model p \<and>
          list_all (fresh s s') chunks \<and>
          (case get_model_state_dict_shard_st unwrap_model model cfg s' of
             (chunks2, s'') \<Rightarrow>
               list_all (fresh s' s'') chunks2 \<and>
               map (deref s'') chunks2 = map (deref s') chunks))"
proof -
  obtain sd s1 where r1: "get_grad_required_state_dict_st model s = (sd, s1)"
    by (cases "get_grad_required_state_dict_st model s")
  obtain sd2 s2 where r2: "get_grad_required_state_dict_st model s1 = (sd2, s2)"
    by (cases "get_grad_required_state_dict_st model s1")
  from get_grad_required_state_dict_st_sound [OF assms(1) r1, of p]
  have u1: "unchanged s s1" and f1: "fresh s s1 sd"
    and v1: "deref s1 sd = get_grad_required_state_dict (module_in s model p)"
    by simp_all
  have m1: "module_in s1 model p = module_in s model p"
    using u1 assms(1) by (rule module_in_unchanged)
  have a1: "module_allocated s1 model"
    using u1 assms(1) by (rule module_allocated_unchanged)
  from get_grad_required_state_dict_st_sound [OF a1 r2, of p]
  have f2: "fresh s1 s2 sd2"
    and v2: "deref s2 sd2 = get_grad_required_state_dict (module_in s1 model p)"
    by simp_all
  have grad: "unchanged s s1 \<and> module_in s1 model p = module_in s model p \<and> fresh s s1 sd \<and>
      fresh s1 s2 sd2 \<and> deref s2 sd2 = deref s1 sd"
    using u1 m1 f1 f2 v1 v2 by simp
  let ?m = "unwrap_model model"
  obtain chunks t1 where q1: "get_model_state_dict_shard_st unwrap_model model cfg s = (chunks, t1)"
    by (cases "get_model_state_dict_shard_st unwrap_model model cfg s")
  obtain chunks2 t2
    where q2: "get_model_state_dict_shard_st unwrap_model model cfg t1 = (chunks2, t2)"
    by (cases "get_model_state_dict_shard_st unwrap_model model cfg t1")
  from get_model_state_dict_shard_st_sound [OF assms(2) q1, of p]
  have w1: "unchanged s t1" and g1: "list_all (fresh s t1) chunks"
    and x1: "map (deref t1) chunks = get_model_state_dict_shard id (module_in s ?m p) cfg"
    by simp_all
  have n1: "module_in t1 model p = module_in s model p"
    using w1 assms(1) by (rule module_in_unchanged)
  have n1': "module_in t1 ?m p = module_in s ?m p"
    using w1 assms(2) by (rule module_in_unchanged)
  have b1: "module_allocated t1 ?m"
    using w1 assms(2) by (rule module_allocated_unchanged)
  from get_model_state_dict_shard_st_sound [OF b1 q2, of p]
  have g2: "list_all (fresh t1 t2) chunks2"
    and x2: "map (deref t2) chunks2 = get_model_state_dict_shard id (module_in t1 ?m p) cfg"
    by simp_all
  have shard: "unchanged s t1 \<and> module_in t1 model p = module_in s model p \<and>
      list_all (fresh s t1) chunks \<and> list_all (fresh t1 t2) chunks2 \<and>
      map (deref t2) chunks2 = map (deref t1) chunks"
    using w1 n1 g1 g2 x1 x2 n1' by simp
  from grad shard show ?thesis
    by (simp add: r1 r2 q1 q2)
qed

theorem parameter_reads_leave_model_unchanged_witness:
  "module_allocated example_store example_module_ref \<and>
   fst (get_grad_required_state_dict_st example_module_ref example_store) =
     [(''weight'', 3), (''scale'', 4)] \<and>
   unchanged example_store (snd (get_grad_required_state_dict_st example_module_ref example_store)) \<and>
   module_in (snd (get_grad_required_state_dict_st example_module_ref example_store))
       example_module_ref True =
     module_in example_store example_module_ref True \<and>
   fst (get_model_state_dict_shard_st id example_module_ref (shard_config 16) example_store) =
     [[(''weight'', 3)], [(''bias'', 4), (''scale'', 5)]] \<and>
   unchanged example_store
     (snd (get_model_state_dict_shard_st id example_module_ref (shard_config 16) example_store)) \<and>
   module_in
       (snd (get_model_state_dict_shard_st id example_module_ref (shard_config 16) example_store))
       example_module_ref True =
     module_in example_store example_module_ref True"
proof -
  have a: "module_allocated example_store example_module_ref"
    by (simp add: module_allocated_def example_store_def example_module_ref_def)
  have g: "fst (get_grad_required_state_dict_st example_module_ref example_store) =
     [(''weight'', 3), (''scale'', 4)]"
    by (simp add: get_grad_required_state_dict_st_def example_module_ref_def example_store_def
        detach_st_def allocate_def float32_def)
  have h: "fst (get_model_state_dict_shard_st id example_module_ref (shard_config 16)
      example_store) = [[(''weight'', 3)], [(''bias'', 4), (''scale'', 5)]]"
    by (simp add: get_model_state_dict_shard_st_def state_dict_st_def shard_config_def
        example_module_ref_def example_store_def detach_st_def allocate_def float32_def
        detach_def nbytes_def Let_def)
  from parameter_reads_leave_model_unchanged
    [of example_store example_module_ref id True "shard_config 16"] a
  show ?thesis
    by (simp add: case_prod_beta a g h)
qed

section \<open>Saving a pretrained model: the serialization calls\<close>

text \<open>
  C7, as the code has it. When the unwrapped model is an instance of
  \<open>PreTrainedModel\<close>, the first call is the model's \<open>save_pretrained(path)\<close>; when it
  returns, the tokenizer's \<open>save_pretrained(path)\<close> is called, with the same path, exactly
  when a tokenizer is given, and no other call is made. When the unwrapped model is
  not such an instance, the assertion fails and nothing is serialized.
\<close>

theorem save_pretrained_serializes:
  "(is_pretrained (unwrap_model model) \<longrightarrow>
      (let save = Model_save_pretrained (unwrap_model model) path;
           calls = snd (save_pretrained unwrap_model io model path only_rank0 tokenizer)
       in calls =
            (if io [] save = None
             then save #
                  (case tokenizer of None \<Rightarrow> [] | Some t \<Rightarrow> [Tokenizer_save_pretrained t path])
             else [save]) \<and>
          (io [] save = None \<longrightarrow>
             (\<forall>t p. Tokenizer_save_pretrained t p \<in> set calls \<longleftrightarrow>
                      tokenizer = Some t \<and> p = path)))) \<and>
   (\<not> is_pretrained (unwrap_model model) \<longrightarrow>
      save_pretrained unwrap_model io model path only_rank0 tokenizer =
        (Some AssertionError, []))"
  by (auto simp: save_pretrained_def Let_def split: option.splits)

theorem save_pretrained_serializes_witness:
  "is_pretrained (id example_model) \<and>
   snd (save_pretrained id never_raises example_model ''checkpoint'' True (Some ''tokenizer'')) =
     [Model_save_pretrained example_model ''checkpoint'',
      Tokenizer_save_pretrained ''tokenizer'' ''checkpoint''] \<and>
   snd (save_pretrained id never_raises example_model ''checkpoint'' True (None :: string option)) =
     [Model_save_pretrained example_model ''checkpoint''] \<and>
   \<not> is_pretrained (id plain_module) \<and>
   save_pretrained id never_raises plain_module ''checkpoint'' True (Some ''tokenizer'') =
     (Some AssertionError, [])"
proof -
  have p: "is_pretrained (id example_model)" by (simp add: example_model_def)
  have q: "\<not> is_pretrained (id plain_module)" by (simp add: plain_module_def)
  from save_pretrained_serializes
      [of id example_model "''checkpoint''" never_raises True "Some ''tokenizer''"]
    save_pretrained_serializes
      [of id example_model "''checkpoint''" never_raises True "None :: string option"]
    save_pretrained_serializes
      [of id plain_module "''checkpoint''" never_raises True "Some ''tokenizer''"] p q
  show ?thesis by (simp add: never_raises_def Let_def)
qed

text \<open>
  The claim as the specification has it fails: a module that is not a
  \<open>PreTrainedModel\<close> is not serialized, the assertion raises before any call.
\<close>

theorem save_pretrained_serializes_counterexample:
  "save_pretrained id never_raises plain_module ''checkpoint'' True (None :: string option) =
     (Some AssertionError, [])"
  by (simp add: save_pretrained_def plain_module_def Let_def)

text \<open>
  C10. \<open>only_rank0\<close> is not read: two calls that differ in it only make the same
  serialization calls and end the same way.
\<close>

theorem save_pretrained_ignores_only_rank0:
  "save_pretrained unwrap_model io model path only_rank0 tokenizer =
   save_pretrained unwrap_model io model path only_rank0' tokenizer"
  by (simp add: save_pretrained_def)

end
